theory Spec2Isabelle
  imports Main "HOL-Library.Word"
begin

unbundle bit_operations_syntax

section \<open>Data model\<close>

text \<open>
  A Go \<^verbatim>\<open>[]byte\<close> is a list of 8-bit words; a \<^verbatim>\<open>nil\<close> slice and an empty slice
  are both the empty list (the code only ever takes their length and their contents).
  A Go \<^verbatim>\<open>string\<close> is an immutable byte sequence: a HOL \<open>string\<close>, whose characters
  are bytes. The conversion \<^verbatim>\<open>[]byte(s)\<close> is \<open>bytes_of_string\<close>.
\<close>

type_synonym byte = "8 word"
type_synonym bytes = "byte list"

definition bytes_of_string :: "string \<Rightarrow> bytes" where
  "bytes_of_string s = map of_char s"

text \<open>
  Go errors are values. Errors produced by collaborators that the package only calls
  (the cipher, the first-party checker, the discharger's decoder, checker and factory)
  are \<open>External\<close>; the others are the errors the package builds itself, each wrapping
  what its format string prints.
\<close>

datatype error =
    ErrLength
  | InvalidByteError char
  | CannotDecodeVerificationId string error
  | CannotDecodeSignature bytes error
  | FailedToDecryptCaveat nat error
  | CannotFindDischarge nat
  | SignatureMismatch
  | CannotUnmarshalCaveatId error
  | DischargerCannotDecode error
  | External string

record Caveat =
  cLocation :: string
  caveatId :: string
  verificationId :: bytes

record Macaroon =
  location :: string
  id' :: string
  caveats :: "Caveat list"
  sig :: bytes

record MacaroonDoc =
  Caveats :: "Caveat list"
  Location :: string
  Identifier :: string
  Signature :: string

record CaveatDoc =
  dLocation :: string
  CID :: string
  VID :: string

record ThirdPartyCaveatId =
  RootKey :: bytes
  Caveat :: string

section \<open>The standard library's hex codec\<close>

text \<open>
  Go's \<^verbatim>\<open>encoding/hex\<close>. \<^verbatim>\<open>EncodeToString\<close> writes two characters of
  \<^verbatim>\<open>hextable\<close> per byte, the high nibble first. \<^verbatim>\<open>DecodeString\<close> reads pairs of
  characters, accepts both letter cases, and returns the bytes decoded before the first
  fault together with the error: \<^verbatim>\<open>InvalidByteError\<close> for a character that is no hex
  digit, \<^verbatim>\<open>ErrLength\<close> for an odd length (the dangling character is looked at first).
\<close>

definition hextable :: string where
  "hextable = ''0123456789abcdef''"

fun EncodeToString :: "bytes \<Rightarrow> string" where
  "EncodeToString [] = []"
| "EncodeToString (v # src) =
     hextable ! unat (drop_bit 4 v) # hextable ! unat (v AND 0x0f) # EncodeToString src"

definition fromHexChar :: "byte \<Rightarrow> byte \<times> bool" where
  "fromHexChar c =
     (if of_char CHR ''0'' \<le> c \<and> c \<le> of_char CHR ''9'' then (c - of_char CHR ''0'', True)
      else if of_char CHR ''a'' \<le> c \<and> c \<le> of_char CHR ''f'' then (c - of_char CHR ''a'' + 10, True)
      else if of_char CHR ''A'' \<le> c \<and> c \<le> of_char CHR ''F'' then (c - of_char CHR ''A'' + 10, True)
      else (0, False))"

fun DecodeString :: "string \<Rightarrow> bytes \<times> error option" where
  "DecodeString [] = ([], None)"
| "DecodeString [p] =
     (if \<not> snd (fromHexChar (of_char p)) then ([], Some (InvalidByteError p))
      else ([], Some ErrLength))"
| "DecodeString (p # q # src) =
     (case fromHexChar (of_char p) of (a, ok) \<Rightarrow>
        if \<not> ok then ([], Some (InvalidByteError p))
        else case fromHexChar (of_char q) of (b, ok) \<Rightarrow>
          if \<not> ok then ([], Some (InvalidByteError q))
          else case DecodeString src of (dst, err) \<Rightarrow>
            ((push_bit 4 a OR b) # dst, err))"

text \<open>What a well-formed hex string is, said without the decoder.\<close>

definition isHexDigit :: "char \<Rightarrow> bool" where
  "isHexDigit c \<longleftrightarrow> c \<in> set ''0123456789abcdefABCDEF''"

definition validHex :: "string \<Rightarrow> bool" where
  "validHex s \<longleftrightarrow> even (length s) \<and> list_all isHexDigit s"

section \<open>Cryptographic primitives\<close>

text \<open>
  The hash functions of \<^verbatim>\<open>crypto/sha256\<close> and \<^verbatim>\<open>crypto/hmac\<close> and the package's
  cipher are parameters of the model: nothing below depends on which functions they are.
  \<open>hmac_sha256 key data\<close> is the digest of \<^verbatim>\<open>hmac.New(sha256.New, key)\<close> after
  \<open>data\<close> was written to it. The cipher draws random bytes, so \<open>encrypt\<close> threads the
  state \<open>'r\<close> of the random source, as \<open>newNonce\<close> does.
\<close>

record 'r crypto =
  sha256 :: "bytes \<Rightarrow> bytes"
  hmac_sha256 :: "bytes \<Rightarrow> bytes \<Rightarrow> bytes"
  newNonce :: "'r \<Rightarrow> (bytes \<times> error option) \<times> 'r"
  encrypt :: "bytes \<Rightarrow> bytes \<Rightarrow> 'r \<Rightarrow> (bytes \<times> error option) \<times> 'r"
  decrypt :: "bytes \<Rightarrow> bytes \<Rightarrow> bytes \<times> error option"

text \<open>
  A \<^verbatim>\<open>hash.Hash\<close> object: \<^verbatim>\<open>Write\<close> appends to the stream hashed so far,
  \<^verbatim>\<open>Sum(b)\<close>, here \<open>Sum''\<close>, appends the digest of the stream to \<open>b\<close>.
\<close>

record hasher =
  digest :: "bytes \<Rightarrow> bytes"
  written :: bytes

definition Write :: "hasher \<Rightarrow> bytes \<Rightarrow> hasher" where
  "Write h p = h\<lparr>written := written h @ p\<rparr>"

definition Sum' :: "hasher \<Rightarrow> bytes \<Rightarrow> bytes" where
  "Sum' h b = b @ digest h (written h)"

definition sha256_New :: "'r crypto \<Rightarrow> hasher" where
  "sha256_New C = \<lparr>digest = sha256 C, written = []\<rparr>"

text \<open>
  Modelled from the spec: \<^verbatim>\<open>keyedHasher\<close> and \<^verbatim>\<open>keyedHash\<close>, which the source calls
  and does not define. The spec has them as the keyed hash (``HMAC-like, deterministic'') of
  the signature chain: \<open>keyedHasher key\<close> is a hash object keyed by \<open>key\<close>, and
  \<open>keyedHash key text\<close> is the keyed hash of the text.
\<close>

definition keyedHasher :: "'r crypto \<Rightarrow> bytes \<Rightarrow> hasher" where
  "keyedHasher C key = \<lparr>digest = hmac_sha256 C key, written = []\<rparr>"

definition keyedHash :: "'r crypto \<Rightarrow> bytes \<Rightarrow> string \<Rightarrow> bytes" where
  "keyedHash C key text = Sum' (Write (keyedHasher C key) (bytes_of_string text)) []"

text \<open>\<^verbatim>\<open>hmac.Equal\<close> and \<^verbatim>\<open>bytes.Equal\<close> compare lengths and contents.\<close>

definition bytes_Equal :: "bytes \<Rightarrow> bytes \<Rightarrow> bool" where
  "bytes_Equal a b \<longleftrightarrow> a = b"

definition hmac_Equal :: "bytes \<Rightarrow> bytes \<Rightarrow> bool" where
  "hmac_Equal mac1 mac2 \<longleftrightarrow> mac1 = mac2"

section \<open>Caveats and their documents\<close>

definition Caveat_MarshalDoc :: "Caveat \<Rightarrow> CaveatDoc" where
  "Caveat_MarshalDoc cav =
     \<lparr>dLocation = cLocation cav, CID = caveatId cav,
      VID = EncodeToString (verificationId cav)\<rparr>"

text \<open>The receiver is updated field by field; the result is the receiver and the error.\<close>

definition Caveat_UnmarshalDoc :: "Caveat \<Rightarrow> CaveatDoc \<Rightarrow> Caveat \<times> error option" where
  "Caveat_UnmarshalDoc cav doc =
     (let cav = cav\<lparr>cLocation := dLocation doc\<rparr>;
          cav = cav\<lparr>caveatId := CID doc\<rparr>;
          (v, err) = DecodeString (VID doc);
          cav = cav\<lparr>verificationId := v\<rparr>
      in case err of
           Some e \<Rightarrow> (cav, Some (CannotDecodeVerificationId (VID doc) e))
         | None \<Rightarrow> (cav, None))"

definition IsThirdParty :: "Caveat \<Rightarrow> bool" where
  "IsThirdParty cav \<longleftrightarrow> length (verificationId cav) > 0"

section \<open>Macaroons\<close>

definition New :: "'r crypto \<Rightarrow> bytes \<Rightarrow> string \<Rightarrow> string \<Rightarrow> Macaroon" where
  "New C rootKey ident loc =
     (let m = \<lparr>location = loc, id' = ident, caveats = [], sig = []\<rparr>
      in m\<lparr>sig := keyedHash C rootKey (id' m)\<rparr>)"

definition addCaveat :: "'r crypto \<Rightarrow> Macaroon \<Rightarrow> string \<Rightarrow> bytes \<Rightarrow> string \<Rightarrow> Macaroon" where
  "addCaveat C m cid vid loc =
     (let m = m\<lparr>caveats := caveats m @
                  [\<lparr>cLocation = loc, caveatId = cid, verificationId = vid\<rparr>]\<rparr>;
          h = keyedHasher C (sig m);
          h = Write h vid;
          h = Write h (bytes_of_string cid)
      in m\<lparr>sig := Sum' h []\<rparr>)"

definition bindForRequest :: "'r crypto \<Rightarrow> bytes \<Rightarrow> bytes \<Rightarrow> bytes" where
  "bindForRequest C rootSig dischargeSig =
     (if bytes_Equal rootSig dischargeSig then rootSig
      else let h = sha256_New C;
               h = Write h rootSig;
               h = Write h dischargeSig
           in Sum' h [])"

definition Bind :: "'r crypto \<Rightarrow> Macaroon \<Rightarrow> bytes \<Rightarrow> Macaroon" where
  "Bind C m rootSig = m\<lparr>sig := bindForRequest C rootSig (sig m)\<rparr>"

definition AddFirstPartyCaveat :: "'r crypto \<Rightarrow> Macaroon \<Rightarrow> string \<Rightarrow> Macaroon" where
  "AddFirstPartyCaveat C m cid = addCaveat C m cid [] []"

section \<open>Third-party caveats\<close>

text \<open>
  \<^verbatim>\<open>encoding/json\<close> on a \<^verbatim>\<open>ThirdPartyCaveatId\<close> and \<^verbatim>\<open>encoding/base64\<close> in its
  standard encoding are parameters too.
\<close>

record codecs =
  json_Marshal :: "ThirdPartyCaveatId \<Rightarrow> bytes \<times> error option"
  json_Unmarshal :: "bytes \<Rightarrow> ThirdPartyCaveatId \<times> error option"
  base64_EncodeToString :: "bytes \<Rightarrow> string"
  base64_DecodeString :: "string \<Rightarrow> bytes \<times> error option"

text \<open>The result is the pointer (\<open>None\<close> for \<^verbatim>\<open>nil\<close>) and the error.\<close>

definition DecryptThirdPartyCaveatId ::
  "'r crypto \<Rightarrow> codecs \<Rightarrow> bytes \<Rightarrow> string \<Rightarrow> ThirdPartyCaveatId option \<times> error option" where
  "DecryptThirdPartyCaveatId C S secret ident =
     (case base64_DecodeString S ident of
        (decodedId, Some err) \<Rightarrow> (None, Some err)
      | (decodedId, None) \<Rightarrow>
     (case decrypt C secret decodedId of
        (plain, Some err) \<Rightarrow> (None, Some err)
      | (plain, None) \<Rightarrow>
     (case json_Unmarshal S plain of
        (c, Some err) \<Rightarrow> (None, Some (CannotUnmarshalCaveatId err))
      | (c, None) \<Rightarrow> (Some c, None))))"

text \<open>
  The result is the returned pair, the macaroon after the call and the random source
  after the call. Every early return leaves the macaroon as it was.
\<close>

definition AddThirdPartyCaveat ::
  "'r crypto \<Rightarrow> codecs \<Rightarrow> Macaroon \<Rightarrow> bytes \<Rightarrow> string \<Rightarrow> string \<Rightarrow> 'r
     \<Rightarrow> (string \<times> error option) \<times> Macaroon \<times> 'r" where
  "AddThirdPartyCaveat C S m thirdPartySecret caveat loc r =
     (case newNonce C r of
        ((nonce, Some err), r) \<Rightarrow> (([], Some err), m, r)
      | ((nonce, None), r) \<Rightarrow>
     (case json_Marshal S \<lparr>RootKey = nonce, Caveat = caveat\<rparr> of
        (data, Some err) \<Rightarrow> (([], Some err), m, r)
      | (data, None) \<Rightarrow>
     (case encrypt C thirdPartySecret data r of
        ((cid, Some err), r) \<Rightarrow> (([], Some err), m, r)
      | ((cid, None), r) \<Rightarrow>
     (case encrypt C (sig m) nonce r of
        ((vid, Some err), r) \<Rightarrow> (([], Some err), m, r)
      | ((vid, None), r) \<Rightarrow>
        (let encCaveatId = base64_EncodeToString S cid;
             m = addCaveat C m encCaveatId vid loc
         in ((encCaveatId, None), m, r))))))"

section \<open>Verification\<close>

text \<open>
  \<^verbatim>\<open>verify\<close> calls itself on the discharge macaroon of each third-party caveat, and a
  discharge map may lead back to a macaroon already under verification, so the recursion
  has no bound of its own. \<open>fuel\<close> bounds the depth of nested calls; \<open>None\<close> says that
  the depth was not enough. The loop over the caveats is \<open>verify_caveats\<close>: it returns
  \<open>Inl\<close> of what an early \<^verbatim>\<open>return\<close> gives, or \<open>Inr\<close> of the running signature when
  it reaches the end of the caveats. \<open>i\<close> is the loop index. A discharge map holds
  macaroons; an entry that is a \<^verbatim>\<open>nil\<close> pointer is not modelled.
\<close>

type_synonym checker = "string \<Rightarrow> bool \<times> error option"
type_synonym discharges = "string \<rightharpoonup> Macaroon"

fun verify ::
  "nat \<Rightarrow> 'r crypto \<Rightarrow> Macaroon \<Rightarrow> bytes \<Rightarrow> bytes \<Rightarrow> checker \<Rightarrow> discharges
     \<Rightarrow> (bool \<times> error option) option"
and verify_caveats ::
  "nat \<Rightarrow> 'r crypto \<Rightarrow> bytes \<Rightarrow> checker \<Rightarrow> discharges \<Rightarrow> nat \<Rightarrow> Caveat list \<Rightarrow> bytes
     \<Rightarrow> ((bool \<times> error option) + bytes) option"
where
  "verify fuel C m rootSig rootKey check ds =
     (let rootSig = (if length rootSig = 0 then sig m else rootSig);
          caveatSig = keyedHash C rootKey (id' m)
      in case verify_caveats fuel C rootSig check ds 0 (caveats m) caveatSig of
           None \<Rightarrow> None
         | Some (Inl r) \<Rightarrow> Some r
         | Some (Inr caveatSig) \<Rightarrow>
             (let boundSig = bindForRequest C rootSig caveatSig
              in if \<not> hmac_Equal boundSig (sig m) then Some (False, Some SignatureMismatch)
                 else Some (True, None)))"
| "verify_caveats fuel C rootSig check ds i [] caveatSig = Some (Inr caveatSig)"
| "verify_caveats fuel C rootSig check ds i (cav # rest) caveatSig =
     (case
        (if IsThirdParty cav then
           (case decrypt C caveatSig (verificationId cav) of
              (cavKey, Some err) \<Rightarrow> Some (Some (False, Some (FailedToDecryptCaveat i err)))
            | (cavKey, None) \<Rightarrow>
           (case ds (caveatId cav) of
              None \<Rightarrow> Some (Some (False, Some (CannotFindDischarge i)))
            | Some dm \<Rightarrow>
           (case fuel of
              0 \<Rightarrow> None
            | Suc n \<Rightarrow>
           (case verify n C dm rootSig cavKey check ds of
              None \<Rightarrow> None
            | Some (ok, err) \<Rightarrow> if \<not> ok then Some (Some (False, err)) else Some None))))
         else
           (case check (caveatId cav) of
              (ok, err) \<Rightarrow> if \<not> ok then Some (Some (False, err)) else Some None))
      of
        None \<Rightarrow> None
      | Some (Some r) \<Rightarrow> Some (Inl r)
      | Some None \<Rightarrow>
          (let h = keyedHasher C caveatSig;
               h = Write h (verificationId cav);
               h = Write h (bytes_of_string (caveatId cav))
           in verify_caveats fuel C rootSig check ds (Suc i) rest (Sum' h (take 0 caveatSig))))"

definition Verify ::
  "nat \<Rightarrow> 'r crypto \<Rightarrow> Macaroon \<Rightarrow> bytes \<Rightarrow> checker \<Rightarrow> discharges
     \<Rightarrow> (bool \<times> error option) option" where
  "Verify fuel C m rootKey check ds = verify fuel C m (sig m) rootKey check ds"

text \<open>
  The body of the loop, up to the update of the running signature, under a name of its
  own: \<open>None\<close> when the depth is used up, \<open>Some (Some r)\<close> for an early return of
  \<open>r\<close>, \<open>Some None\<close> when the loop goes on.
\<close>

definition check_caveat ::
  "nat \<Rightarrow> 'r crypto \<Rightarrow> bytes \<Rightarrow> checker \<Rightarrow> discharges \<Rightarrow> nat \<Rightarrow> Caveat \<Rightarrow> bytes
     \<Rightarrow> (bool \<times> error option) option option" where
  "check_caveat fuel C rootSig check ds i cav caveatSig =
     (if IsThirdParty cav then
        (case decrypt C caveatSig (verificationId cav) of
           (cavKey, Some err) \<Rightarrow> Some (Some (False, Some (FailedToDecryptCaveat i err)))
         | (cavKey, None) \<Rightarrow>
        (case ds (caveatId cav) of
           None \<Rightarrow> Some (Some (False, Some (CannotFindDischarge i)))
         | Some dm \<Rightarrow>
        (case fuel of
           0 \<Rightarrow> None
         | Suc n \<Rightarrow>
        (case verify n C dm rootSig cavKey check ds of
           None \<Rightarrow> None
         | Some (ok, err) \<Rightarrow> if \<not> ok then Some (Some (False, err)) else Some None))))
      else
        (case check (caveatId cav) of
           (ok, err) \<Rightarrow> if \<not> ok then Some (Some (False, err)) else Some None))"

section \<open>Macaroon documents\<close>

definition MarshalDoc :: "Macaroon \<Rightarrow> MacaroonDoc" where
  "MarshalDoc m =
     \<lparr>Caveats = caveats m, Location = location m, Identifier = id' m,
      Signature = EncodeToString (sig m)\<rparr>"

definition UnmarshalDoc :: "Macaroon \<Rightarrow> MacaroonDoc \<Rightarrow> Macaroon \<times> error option" where
  "UnmarshalDoc m doc =
     (let m = m\<lparr>location := Location doc\<rparr>;
          m = m\<lparr>id' := Identifier doc\<rparr>;
          (s, err) = DecodeString (Signature doc);
          m = m\<lparr>sig := s\<rparr>
      in case err of
           Some e \<Rightarrow> (m, Some (CannotDecodeSignature (sig m) e))
         | None \<Rightarrow> (m\<lparr>caveats := Caveats doc\<rparr>, None))"

section \<open>Discharging\<close>

text \<open>
  The three collaborators of a \<^verbatim>\<open>Discharger\<close> are interfaces; each call may read and
  change the world \<open>'w\<close> outside the package. \<open>'c\<close> is the bakery's caveat type, which
  \<^verbatim>\<open>Discharge\<close> only passes on. A run records the calls it makes to its collaborators,
  in order (the log line it prints first is left out).
\<close>

record ('c, 'w) Discharger =
  Checker :: "string \<Rightarrow> 'w \<Rightarrow> ('c list \<times> error option) \<times> 'w"
  Decoder :: "string \<Rightarrow> 'w \<Rightarrow> (bytes \<times> string \<times> error option) \<times> 'w"
  Factory :: "string \<Rightarrow> bytes \<Rightarrow> 'c list \<Rightarrow> 'w \<Rightarrow> (Macaroon option \<times> error option) \<times> 'w"

datatype 'c call =
    DecodeCaveatId string
  | CheckThirdPartyCaveat string
  | NewMacaroon string bytes "'c list"

definition Discharge ::
  "('c, 'w) Discharger \<Rightarrow> string \<Rightarrow> 'w
     \<Rightarrow> (Macaroon option \<times> error option) \<times> 'c call list \<times> 'w" where
  "Discharge d ident w =
     (case Decoder d ident w of
        ((rootKey, condition, Some err), w) \<Rightarrow>
          ((None, Some (DischargerCannotDecode err)), [DecodeCaveatId ident], w)
      | ((rootKey, condition, None), w) \<Rightarrow>
     (case Checker d condition w of
        ((cavs, Some err), w) \<Rightarrow>
          ((None, Some err), [DecodeCaveatId ident, CheckThirdPartyCaveat condition], w)
      | ((cavs, None), w) \<Rightarrow>
     (case Factory d ident rootKey cavs w of
        (res, w) \<Rightarrow>
          (res, [DecodeCaveatId ident, CheckThirdPartyCaveat condition,
                 NewMacaroon ident rootKey cavs], w))))"

section \<open>The signature chain, as the specification words it\<close>

text \<open>
  The specification's chaining rule: the signature after a caveat is the keyed hash,
  keyed by the signature before it, of the caveat's verification id followed by its
  caveat id. \<open>signature_chain\<close> folds the rule over a sequence of caveats.
\<close>

definition chain_step :: "'r crypto \<Rightarrow> bytes \<Rightarrow> Caveat \<Rightarrow> bytes" where
  "chain_step C s cav = hmac_sha256 C s (verificationId cav @ bytes_of_string (caveatId cav))"

definition signature_chain :: "'r crypto \<Rightarrow> bytes \<Rightarrow> Caveat list \<Rightarrow> bytes" where
  "signature_chain C s cavs = foldl (chain_step C) s cavs"

text \<open>
  A client's call of one of the two exported operations that add a caveat, and a run of
  such calls on a macaroon. The values the calls return are dropped.
\<close>

datatype addition = FirstParty string | ThirdParty bytes string string

fun add_caveat :: "'r crypto \<Rightarrow> codecs \<Rightarrow> Macaroon \<times> 'r \<Rightarrow> addition \<Rightarrow> Macaroon \<times> 'r" where
  "add_caveat C S (m, r) (FirstParty cid) = (AddFirstPartyCaveat C m cid, r)"
| "add_caveat C S (m, r) (ThirdParty secret caveat loc) =
     snd (AddThirdPartyCaveat C S m secret caveat loc r)"

definition add_caveats ::
  "'r crypto \<Rightarrow> codecs \<Rightarrow> Macaroon \<times> 'r \<Rightarrow> addition list \<Rightarrow> Macaroon \<times> 'r" where
  "add_caveats C S mr ops = foldl (add_caveat C S) mr ops"

section \<open>An instance of the primitives for running the model\<close>

text \<open>
  Small stand-ins for the hash functions, the cipher and the codecs, on which the
  definitions above compute. The cipher puts the key in front of the plain text and
  refuses a cipher text that does not start with the key; the random source is a counter.
\<close>

definition ex_decrypt :: "bytes \<Rightarrow> bytes \<Rightarrow> bytes \<times> error option" where
  "ex_decrypt key c =
     (if take (length key) c = key then (drop (length key) c, None)
      else ([], Some (External ''decryption failure'')))"

definition ex_crypto :: "nat crypto" where
  "ex_crypto =
     \<lparr>sha256 = (\<lambda>d. 0 # d),
      hmac_sha256 = (\<lambda>key d. 1 # key @ d),
      newNonce = (\<lambda>r. (([of_nat r], None), Suc r)),
      encrypt = (\<lambda>key p r. ((key @ p, None), r)),
      decrypt = ex_decrypt\<rparr>"

definition ex_Marshal :: "ThirdPartyCaveatId \<Rightarrow> bytes \<times> error option" where
  "ex_Marshal t = (of_nat (length (RootKey t)) # RootKey t @ bytes_of_string (Caveat t), None)"

fun ex_Unmarshal :: "bytes \<Rightarrow> ThirdPartyCaveatId \<times> error option" where
  "ex_Unmarshal [] = (\<lparr>RootKey = [], Caveat = []\<rparr>, Some (External ''unexpected end of input''))"
| "ex_Unmarshal (n # d) =
     (\<lparr>RootKey = take (unat n) d, Caveat = map (\<lambda>b. char_of (unat b)) (drop (unat n) d)\<rparr>, None)"

definition ex_codecs :: codecs where
  "ex_codecs =
     \<lparr>json_Marshal = ex_Marshal, json_Unmarshal = ex_Unmarshal,
      base64_EncodeToString = EncodeToString, base64_DecodeString = DecodeString\<rparr>"

text \<open>
  Three checkers: one reports an error together with \<^verbatim>\<open>true\<close>, one reports the
  same error together with \<^verbatim>\<open>false\<close>, one accepts every condition.
\<close>

definition ex_erring_check :: checker where
  "ex_erring_check c = (True, Some (External ''cannot check''))"

definition ex_refusing_check :: checker where
  "ex_refusing_check c = (False, Some (External ''cannot check''))"

definition ex_check :: checker where
  "ex_check c = (True, None)"

text \<open>A discharger over a world that counts the macaroons minted.\<close>

definition ex_Discharger :: "(string, nat) Discharger" where
  "ex_Discharger =
     \<lparr>Checker = (\<lambda>cond w.
         if cond = ''is-member'' then (([], Some (External ''not a member'')), w)
         else (([cond], None), w)),
      Decoder = (\<lambda>ident w.
         if ident = [] then (([], [], Some (External ''empty caveat id'')), w)
         else (([7], ident, None), w)),
      Factory = (\<lambda>ident rootKey cavs w.
         ((Some (foldl (AddFirstPartyCaveat ex_crypto) (New ex_crypto rootKey ident []) cavs),
           None), Suc w))\<rparr>"

text \<open>The caveat that \<^verbatim>\<open>AddFirstPartyCaveat\<close> appends for a condition.\<close>

definition first_party :: "string \<Rightarrow> Caveat" where
  "first_party cid = \<lparr>cLocation = [], caveatId = cid, verificationId = []\<rparr>"

text \<open>
  A root macaroon with one third-party caveat, its discharge macaroon bound to it, and
  the discharge maps with and without the discharge.
\<close>

definition ex_no_discharges :: discharges where
  "ex_no_discharges = Map.empty"

definition ex_root :: Macaroon where
  "ex_root = fst (snd (AddThirdPartyCaveat ex_crypto ex_codecs (New ex_crypto [7] ''id'' ''loc'')
                         [5] ''ok'' ''tp'' 0))"

definition ex_discharge :: Macaroon where
  "ex_discharge = Bind ex_crypto (New ex_crypto [0] ''0501006f6b'' ''tp'') (sig ex_root)"

definition ex_discharges :: discharges where
  "ex_discharges = [''0501006f6b'' \<mapsto> ex_discharge]"

text \<open>
  A macaroon whose third-party caveat is discharged by the macaroon itself: the
  verification id is the root key \<open>[7]\<close> under the signature \<open>[1, 7, 120]\<close> that
  verification starts from.
\<close>

definition ex_cyclic :: Macaroon where
  "ex_cyclic =
     \<lparr>location = [], id' = ''x'',
      caveats = [\<lparr>cLocation = [], caveatId = ''c'', verificationId = [1, 7, 120, 7]\<rparr>],
      sig = [2]\<rparr>"

definition ex_cyclic_discharges :: discharges where
  "ex_cyclic_discharges = [''c'' \<mapsto> ex_cyclic]"

section \<open>Strings through the standard library's JSON codec\<close>

text \<open>
  Go's \<^verbatim>\<open>encoding/json\<close> writes a string rune by rune. \<^verbatim>\<open>utf8.DecodeRuneInString\<close>
  reads the rune at the head of a string: \<open>DecodeRuneInString\<close> is its width when the head
  is a well-formed UTF-8 encoding, and \<open>None\<close> when it is not (Go returns
  \<^verbatim>\<open>RuneError\<close> with width 1). \<open>rune_len\<close> is the width that the first byte
  announces (0 for a byte that starts no encoding), \<open>accept_lo\<close> and \<open>accept_hi\<close> bound
  the second byte, the other bytes are continuation bytes.
\<close>

definition rune_len :: "char \<Rightarrow> nat" where
  "rune_len s0 =
     (let x = (of_char s0 :: nat)
      in if x < 0x80 then 1
         else if 0xC2 \<le> x \<and> x \<le> 0xDF then 2
         else if 0xE0 \<le> x \<and> x \<le> 0xEF then 3
         else if 0xF0 \<le> x \<and> x \<le> 0xF4 then 4
         else 0)"

definition accept_lo :: "char \<Rightarrow> nat" where
  "accept_lo s0 =
     (if (of_char s0 :: nat) = 0xE0 then 0xA0
      else if (of_char s0 :: nat) = 0xF0 then 0x90
      else 0x80)"

definition accept_hi :: "char \<Rightarrow> nat" where
  "accept_hi s0 =
     (if (of_char s0 :: nat) = 0xED then 0x9F
      else if (of_char s0 :: nat) = 0xF4 then 0x8F
      else 0xBF)"

definition continuation :: "char \<Rightarrow> bool" where
  "continuation c \<longleftrightarrow> 0x80 \<le> (of_char c :: nat) \<and> (of_char c :: nat) \<le> 0xBF"

definition DecodeRuneInString :: "string \<Rightarrow> nat option" where
  "DecodeRuneInString s =
     (case s of
        [] \<Rightarrow> None
      | s0 # _ \<Rightarrow>
          (let sz = rune_len s0
           in if sz = 0 then None
              else if sz = 1 then Some 1
              else if length s < sz then None
              else if (of_char (s ! 1) :: nat) < accept_lo s0 \<or> accept_hi s0 < (of_char (s ! 1) :: nat)
                then None
              else if sz \<le> 2 then Some 2
              else if \<not> continuation (s ! 2) then None
              else if sz \<le> 3 then Some 3
              else if \<not> continuation (s ! 3) then None
              else Some 4))"

text \<open>\<^verbatim>\<open>utf8.ValidString\<close>: every rune of the string is well formed.\<close>

fun utf8_ValidString :: "string \<Rightarrow> bool" where
  "utf8_ValidString [] = True"
| "utf8_ValidString (s0 # s) =
     (case DecodeRuneInString (s0 # s) of
        None \<Rightarrow> False
      | Some n \<Rightarrow> utf8_ValidString (drop (n - 1) s))"

text \<open>
  What \<^verbatim>\<open>json.Unmarshal\<close> reads back from a string that \<^verbatim>\<open>json.Marshal\<close> wrote:
  the encoder writes the escape of U+FFFD for each byte that starts no well-formed rune,
  and copies or escapes the well-formed runes so that the decoder restores them; U+FFFD is
  the three bytes \<open>EF BF BD\<close>.
\<close>

fun json_string_value :: "string \<Rightarrow> string" where
  "json_string_value [] = []"
| "json_string_value (s0 # s) =
     (case DecodeRuneInString (s0 # s) of
        None \<Rightarrow> [CHR 0xEF, CHR 0xBF, CHR 0xBD] @ json_string_value s
      | Some n \<Rightarrow> s0 # take (n - 1) s @ json_string_value (drop (n - 1) s))"

text \<open>
  The instance of the codecs with a serialiser that treats the condition as
  \<^verbatim>\<open>encoding/json\<close> treats a string.
\<close>

definition ex_json_Marshal :: "ThirdPartyCaveatId \<Rightarrow> bytes \<times> error option" where
  "ex_json_Marshal t = ex_Marshal (t\<lparr>Caveat := json_string_value (Caveat t)\<rparr>)"

definition ex_json_codecs :: codecs where
  "ex_json_codecs = ex_codecs\<lparr>json_Marshal := ex_json_Marshal\<rparr>"

section \<open>Properties of the hex codec\<close>

lemma unat_of_char_byte: "unat (of_char c :: byte) = of_char c"
proof -
  have "(of_char c :: byte) = of_nat (of_char c)" by (simp add: of_nat_of_char)
  then have "unat (of_char c :: byte) = (of_char c :: nat) mod 256"
    by (simp add: unat_of_nat)
  then show ?thesis by simp
qed

lemma low_mask: "(v::byte) AND 0x0f = take_bit 4 v"
proof -
  have "(0x0f::byte) = mask 4" by (simp add: mask_eq_exp_minus_1)
  then show ?thesis by (simp add: take_bit_eq_mask)
qed

lemma nibble_join: "push_bit 4 (drop_bit 4 v) OR (v AND 0x0f) = (v::byte)"
  unfolding low_mask
  by (rule bit_word_eqI) (auto simp add: bit_simps)

lemma nibble_hi: "unat (drop_bit 4 (v::byte)) < 16"
proof -
  have "unat v < 256" using unsigned_less [of v] by simp
  then show ?thesis by (simp add: drop_bit_eq_div unat_div)
qed

lemma nibble_lo: "unat ((v::byte) AND 0x0f) < 16"
  unfolding low_mask by (simp add: take_bit_eq_mod unat_mod)

lemma fromHexChar_hextable:
  assumes "unat (n::byte) < 16"
  shows "fromHexChar (of_char (hextable ! unat n)) = (n, True)"
proof -
  from assms have "unat n \<in> {0,1,2,3,4,5,6,7,8,9,10,11,12,13,14,15}"
    by (simp only: insert_iff empty_iff) presburger
  then have "(word_of_nat (unat n) :: byte) \<in> word_of_nat ` {0,1,2,3,4,5,6,7,8,9,10,11,12,13,14,15}"
    by (rule imageI)
  then have "n \<in> {0,1,2,3,4,5,6,7,8,9,10,11,12,13,14,15}"
    by simp
  then show ?thesis
    by (auto simp add: hextable_def fromHexChar_def)
qed

lemma DecodeString_EncodeToString: "DecodeString (EncodeToString bs) = (bs, None)"
  by (induction bs) (simp_all add: fromHexChar_hextable nibble_hi nibble_lo nibble_join)

lemma hex_imp: "isHexDigit c \<Longrightarrow> snd (fromHexChar (of_char c))"
    by (auto simp add: isHexDigit_def fromHexChar_def)

lemma hex_range:
  assumes a: "snd (fromHexChar (of_char c))"
  shows "48 \<le> (of_char c :: nat) \<and> (of_char c :: nat) \<le> 57 \<or> 97 \<le> (of_char c :: nat) \<and> (of_char c :: nat) \<le> 102 \<or> 65 \<le> (of_char c :: nat) \<and> (of_char c :: nat) \<le> 70"
  using a
  by (simp add: fromHexChar_def word_le_nat_alt unat_of_char_byte split: if_splits)

lemma snd_fromHexChar: "snd (fromHexChar (of_char c)) \<longleftrightarrow> isHexDigit c"
proof
  assume "isHexDigit c"
  then show "snd (fromHexChar (of_char c))" by (rule hex_imp)
next
  assume a: "snd (fromHexChar (of_char c))"
  have "(of_char c :: nat) \<in> {48,49,50,51,52,53,54,55,56,57,97,98,99,100,101,102,65,66,67,68,69,70}"
    using hex_range [OF a] by (simp only: insert_iff empty_iff) presburger
  also have "\<dots> = of_char ` set ''0123456789abcdefABCDEF''"
    by simp
  finally show "isHexDigit c"
    unfolding isHexDigit_def by (simp only: inj_image_mem_iff [OF inj_of_char])
qed

lemma DecodeString_None_iff: "snd (DecodeString s) = None \<longleftrightarrow> validHex s"
  by (induction s rule: DecodeString.induct)
     (auto simp add: validHex_def snd_fromHexChar [symmetric] split: prod.splits)

section \<open>Hash objects and the chaining rule\<close>

lemma Sum_Write_Write [simp]:
  "Sum' (Write (Write \<lparr>digest = f, written = []\<rparr> a) b) [] = f (a @ b)"
  by (simp add: Sum'_def Write_def)

lemma keyedHash_eq: "keyedHash C key text = hmac_sha256 C key (bytes_of_string text)"
  by (simp add: keyedHash_def keyedHasher_def Sum'_def Write_def)

lemma chain_step_hasher:
  "Sum' (Write (Write (keyedHasher C s) (verificationId cav)) (bytes_of_string (caveatId cav))) (take 0 s)
     = chain_step C s cav"
  by (simp add: keyedHasher_def chain_step_def)

lemma addCaveat_eq:
  "addCaveat C m cid vid loc =
     m\<lparr>caveats := caveats m @ [\<lparr>cLocation = loc, caveatId = cid, verificationId = vid\<rparr>],
       sig := chain_step C (sig m) \<lparr>cLocation = loc, caveatId = cid, verificationId = vid\<rparr>\<rparr>"
  by (simp add: addCaveat_def keyedHasher_def chain_step_def Let_def)

lemma AddFirstPartyCaveat_eq:
  "AddFirstPartyCaveat C m cid =
     m\<lparr>caveats := caveats m @ [first_party cid],
       sig := chain_step C (sig m) (first_party cid)\<rparr>"
  by (simp add: AddFirstPartyCaveat_def addCaveat_eq first_party_def)

lemma foldl_AddFirstPartyCaveat:
  "foldl (AddFirstPartyCaveat C) m conds =
     m\<lparr>caveats := caveats m @ map first_party conds,
       sig := signature_chain C (sig m) (map first_party conds)\<rparr>"
proof (induction conds arbitrary: m)
  case Nil
  show ?case by (simp add: signature_chain_def)
next
  case (Cons c conds)
  have "foldl (AddFirstPartyCaveat C) m (c # conds) =
        foldl (AddFirstPartyCaveat C) (AddFirstPartyCaveat C m c) conds"
    by simp
  also have "\<dots> = (AddFirstPartyCaveat C m c)
       \<lparr>caveats := caveats (AddFirstPartyCaveat C m c) @ map first_party conds,
        sig := signature_chain C (sig (AddFirstPartyCaveat C m c)) (map first_party conds)\<rparr>"
    by (rule Cons.IH)
  finally have step: "foldl (AddFirstPartyCaveat C) m (c # conds) = (AddFirstPartyCaveat C m c)
       \<lparr>caveats := caveats (AddFirstPartyCaveat C m c) @ map first_party conds,
        sig := signature_chain C (sig (AddFirstPartyCaveat C m c)) (map first_party conds)\<rparr>" .
  show ?case
    unfolding step by (simp add: AddFirstPartyCaveat_eq signature_chain_def)
qed

lemma signature_chain_snoc:
  "signature_chain C k (cavs @ [cav]) = chain_step C (signature_chain C k cavs) cav"
  by (simp add: signature_chain_def)

lemma addCaveat_chain:
  assumes "sig m = signature_chain C k (caveats m)"
  shows "sig (addCaveat C m cid vid loc) = signature_chain C k (caveats (addCaveat C m cid vid loc))"
  using assms by (simp add: addCaveat_eq signature_chain_snoc)

lemma AddThirdPartyCaveat_cases:
  assumes "AddThirdPartyCaveat C S m secret caveat loc r = ((cid, err), m', r')"
  shows "(err \<noteq> None \<and> m' = m) \<or> (err = None \<and> (\<exists>vid. m' = addCaveat C m cid vid loc))"
  using assms
  by (auto simp add: AddThirdPartyCaveat_def Let_def split: prod.splits option.splits)

lemma add_caveat_chain:
  assumes "sig (fst mr) = signature_chain C k (caveats (fst mr))"
  shows "sig (fst (add_caveat C S mr a)) = signature_chain C k (caveats (fst (add_caveat C S mr a)))"
proof (cases mr)
  case (Pair m r)
  show ?thesis
  proof (cases a)
    case (FirstParty cid)
    with Pair assms show ?thesis
      by (simp add: AddFirstPartyCaveat_def addCaveat_chain)
  next
    case (ThirdParty secret caveat loc)
    obtain cid err m' r' where res: "AddThirdPartyCaveat C S m secret caveat loc r = ((cid, err), m', r')"
      by (metis prod.exhaust)
    from AddThirdPartyCaveat_cases [OF res] Pair assms have
      "sig m' = signature_chain C k (caveats m')"
      by (auto simp add: addCaveat_chain)
    with Pair ThirdParty res show ?thesis by simp
  qed
qed

lemma add_caveats_chain:
  assumes "sig (fst mr) = signature_chain C k (caveats (fst mr))"
  shows "sig (fst (add_caveats C S mr ops)) = signature_chain C k (caveats (fst (add_caveats C S mr ops)))"
  using assms unfolding add_caveats_def
proof (induction ops arbitrary: mr)
  case Nil
  then show ?case by simp
next
  case (Cons a ops)
  have "sig (fst (add_caveat C S mr a)) = signature_chain C k (caveats (fst (add_caveat C S mr a)))"
    using Cons.prems by (rule add_caveat_chain)
  then show ?case
    by (simp add: Cons.IH)
qed

text \<open>
  The instance of the primitives, evaluated. The equations of \<open>verify\<close> are unfolded
  on demand only.
\<close>

declare verify.simps [simp del]
declare verify_caveats.simps(2) [simp del]

lemmas ex_eval = ex_crypto_def ex_decrypt_def ex_check_def ex_erring_check_def ex_refusing_check_def
  ex_no_discharges_def New_def AddFirstPartyCaveat_def addCaveat_def keyedHash_def keyedHasher_def
  sha256_New_def Sum'_def Write_def bytes_of_string_def bindForRequest_def bytes_Equal_def
  hmac_Equal_def IsThirdParty_def Bind_def Verify_def verify.simps verify_caveats.simps(2)
  AddThirdPartyCaveat_def DecryptThirdPartyCaveatId_def ex_codecs_def ex_Marshal_def hextable_def
  fromHexChar_def chain_step_def signature_chain_def Let_def

lemma ex_AddThirdPartyCaveat:
  "AddThirdPartyCaveat ex_crypto ex_codecs (New ex_crypto [7] ''id'' ''loc'') [5] ''ok'' ''tp'' 0 =
     ((''0501006f6b'', None),
      \<lparr>location = ''loc'', id' = ''id'',
       caveats = [\<lparr>cLocation = ''tp'', caveatId = ''0501006f6b'',
                   verificationId = [1, 7, 105, 100, 0]\<rparr>],
       sig = [1, 1, 7, 105, 100, 1, 7, 105, 100, 0, 48, 53, 48, 49, 48, 48, 54, 102, 54, 98]\<rparr>,
      1)"
  by (simp add: ex_eval)

lemma ex_root_eq:
  "ex_root =
     \<lparr>location = ''loc'', id' = ''id'',
      caveats = [\<lparr>cLocation = ''tp'', caveatId = ''0501006f6b'',
                  verificationId = [1, 7, 105, 100, 0]\<rparr>],
      sig = [1, 1, 7, 105, 100, 1, 7, 105, 100, 0, 48, 53, 48, 49, 48, 48, 54, 102, 54, 98]\<rparr>"
  by (simp add: ex_root_def ex_AddThirdPartyCaveat)

text \<open>
  Claim C1. Every caveat addition gives the macaroon the signature that is the keyed hash,
  keyed by the signature it had, of the caveat's verification id followed by its caveat
  id: for \<^verbatim>\<open>addCaveat\<close> itself, for \<^verbatim>\<open>AddFirstPartyCaveat\<close> with the empty
  verification id, and for a successful \<^verbatim>\<open>AddThirdPartyCaveat\<close> with the verification
  id of the caveat it appended. \<^verbatim>\<open>New\<close> starts from the keyed hash of the identifier
  under the root key, so after any run of additions the signature is the fold of the rule
  over the macaroon's caveats, in order, from that start.
\<close>

theorem signature_chaining:
  "sig (addCaveat C m cid vid loc) = hmac_sha256 C (sig m) (vid @ bytes_of_string cid)
   \<and> sig (AddFirstPartyCaveat C m cid) = hmac_sha256 C (sig m) ([] @ bytes_of_string cid)
   \<and> (AddThirdPartyCaveat C S m secret caveat loc r = ((cid', None), m', r') \<longrightarrow>
       (\<exists>vid'. caveats m' = caveats m @ [\<lparr>cLocation = loc, caveatId = cid', verificationId = vid'\<rparr>]
              \<and> sig m' = hmac_sha256 C (sig m) (vid' @ bytes_of_string cid')))
   \<and> sig (New C rootKey ident loc') = keyedHash C rootKey ident
   \<and> sig (fst (add_caveats C S (New C rootKey ident loc', r) ops)) =
       signature_chain C (keyedHash C rootKey ident)
         (caveats (fst (add_caveats C S (New C rootKey ident loc', r) ops)))"
proof (intro conjI impI)
  show "sig (addCaveat C m cid vid loc) = hmac_sha256 C (sig m) (vid @ bytes_of_string cid)"
    by (simp add: addCaveat_eq chain_step_def)
  show "sig (AddFirstPartyCaveat C m cid) = hmac_sha256 C (sig m) ([] @ bytes_of_string cid)"
    by (simp add: AddFirstPartyCaveat_def addCaveat_eq chain_step_def)
  show "sig (New C rootKey ident loc') = keyedHash C rootKey ident"
    by (simp add: New_def)
  have "sig (fst (New C rootKey ident loc', r)) =
      signature_chain C (keyedHash C rootKey ident) (caveats (fst (New C rootKey ident loc', r)))"
    by (simp add: New_def signature_chain_def)
  then show "sig (fst (add_caveats C S (New C rootKey ident loc', r) ops)) =
       signature_chain C (keyedHash C rootKey ident)
         (caveats (fst (add_caveats C S (New C rootKey ident loc', r) ops)))"
    by (rule add_caveats_chain)
next
  assume "AddThirdPartyCaveat C S m secret caveat loc r = ((cid', None), m', r')"
  from AddThirdPartyCaveat_cases [OF this] obtain vid' where "m' = addCaveat C m cid' vid' loc"
    by auto
  then have "caveats m' = caveats m @ [\<lparr>cLocation = loc, caveatId = cid', verificationId = vid'\<rparr>]
      \<and> sig m' = hmac_sha256 C (sig m) (vid' @ bytes_of_string cid')"
    by (simp add: addCaveat_eq chain_step_def)
  then show "\<exists>vid'. caveats m' = caveats m @ [\<lparr>cLocation = loc, caveatId = cid', verificationId = vid'\<rparr>]
              \<and> sig m' = hmac_sha256 C (sig m) (vid' @ bytes_of_string cid')" ..
qed

theorem signature_chaining_witness:
  "AddThirdPartyCaveat ex_crypto ex_codecs (New ex_crypto [7] ''id'' ''loc'') [5] ''ok'' ''tp'' 0
     = ((''0501006f6b'', None), ex_root, 1)
   \<and> sig ex_root = hmac_sha256 ex_crypto (sig (New ex_crypto [7] ''id'' ''loc''))
                      ([1, 7, 105, 100, 0] @ bytes_of_string ''0501006f6b'')
   \<and> sig (fst (add_caveats ex_crypto ex_codecs (New ex_crypto [7] ''id'' ''loc'', 0)
                  [ThirdParty [5] ''ok'' ''tp'', FirstParty ''a'']))
     = signature_chain ex_crypto (keyedHash ex_crypto [7] ''id'')
         [\<lparr>cLocation = ''tp'', caveatId = ''0501006f6b'', verificationId = [1, 7, 105, 100, 0]\<rparr>,
          \<lparr>cLocation = [], caveatId = ''a'', verificationId = []\<rparr>]"
proof -
  have h: "AddThirdPartyCaveat ex_crypto ex_codecs (New ex_crypto [7] ''id'' ''loc'') [5] ''ok'' ''tp'' 0
     = ((''0501006f6b'', None), ex_root, 1)"
    by (simp add: ex_AddThirdPartyCaveat ex_root_eq)
  have c: "caveats (fst (add_caveats ex_crypto ex_codecs (New ex_crypto [7] ''id'' ''loc'', 0)
                  [ThirdParty [5] ''ok'' ''tp'', FirstParty ''a'']))
      = [\<lparr>cLocation = ''tp'', caveatId = ''0501006f6b'', verificationId = [1, 7, 105, 100, 0]\<rparr>,
          \<lparr>cLocation = [], caveatId = ''a'', verificationId = []\<rparr>]"
    by (simp add: add_caveats_def ex_AddThirdPartyCaveat AddFirstPartyCaveat_def addCaveat_def)
  show ?thesis
    using h c
      signature_chaining [where C = ex_crypto and S = ex_codecs
        and m = "New ex_crypto [7] ''id'' ''loc''" and secret = "[5]" and caveat = "''ok''"
        and loc = "''tp''" and r = 0 and cid' = "''0501006f6b''" and m' = ex_root and r' = 1
        and rootKey = "[7]" and ident = "''id''" and loc' = "''loc''"
        and ops = "[ThirdParty [5] ''ok'' ''tp'', FirstParty ''a'']"]
    by (simp add: ex_root_eq)
qed

section \<open>Binding\<close>

text \<open>
  Claim C6. For all byte strings \<open>r\<close> and \<open>s\<close>, \<^verbatim>\<open>bindForRequest(r, s)\<close> is \<open>r\<close>
  itself when the two are byte-equal and the plain (unkeyed) hash of \<open>r\<close> followed by
  \<open>s\<close> otherwise; so binding a signature to itself gives it back. \<^verbatim>\<open>Bind\<close> replaces
  the macaroon's signature with \<^verbatim>\<open>bindForRequest\<close> of the root signature and the
  signature it had.
\<close>

theorem bindForRequest_equal_or_hash:
  "bindForRequest C r s = (if r = s then r else sha256 C (r @ s))
   \<and> bindForRequest C s s = s
   \<and> sig (Bind C m r) = bindForRequest C r (sig m)"
  by (simp add: bindForRequest_def bytes_Equal_def sha256_New_def Bind_def)

theorem bindForRequest_equal_or_hash_witness:
  "bindForRequest ex_crypto [1, 2] [3] = [0, 1, 2, 3]
   \<and> bindForRequest ex_crypto [3] [3] = [3]
   \<and> sig (Bind ex_crypto \<lparr>location = [], id' = [], caveats = [], sig = [3]\<rparr> [1, 2]) = [0, 1, 2, 3]"
  using bindForRequest_equal_or_hash [of ex_crypto "[1, 2]" "[3]"
          "\<lparr>location = [], id' = [], caveats = [], sig = [3]\<rparr>"]
        bindForRequest_equal_or_hash [of ex_crypto "[3]" "[3]"]
  by (simp add: ex_crypto_def)

section \<open>Documents\<close>

text \<open>
  Claim C7. For every macaroon \<open>m\<close>, with any number of caveats of either kind,
  decoding the document that \<^verbatim>\<open>MarshalDoc\<close> makes of \<open>m\<close> succeeds and gives a macaroon
  with the location, identifier, signature bytes and caveat sequence of \<open>m\<close>, whatever
  the receiver held before. The same holds for a caveat and its document, so a caveat
  sequence sent through the caveat documents comes back in the same order with every
  location, caveat id and verification id as it was.
\<close>

theorem marshal_unmarshal_roundtrip:
  "UnmarshalDoc m0 (MarshalDoc m) = (m, None)
   \<and> Caveat_UnmarshalDoc c0 (Caveat_MarshalDoc cav) = (cav, None)
   \<and> map (\<lambda>cav. fst (Caveat_UnmarshalDoc c0 (Caveat_MarshalDoc cav))) (caveats m) = caveats m"
proof -
  have c: "Caveat_UnmarshalDoc c0 (Caveat_MarshalDoc cav) = (cav, None)" for c0 cav
    by (simp add: Caveat_UnmarshalDoc_def Caveat_MarshalDoc_def DecodeString_EncodeToString)
  have m: "UnmarshalDoc m0 (MarshalDoc m) = (m, None)"
    by (simp add: UnmarshalDoc_def MarshalDoc_def DecodeString_EncodeToString)
  show ?thesis by (simp add: c m)
qed

theorem marshal_unmarshal_roundtrip_witness:
  "UnmarshalDoc \<lparr>location = ''x'', id' = ''y'', caveats = [], sig = [9]\<rparr>
     (MarshalDoc \<lparr>location = ''loc'', id' = ''id'',
        caveats = [\<lparr>cLocation = [], caveatId = ''a'', verificationId = []\<rparr>,
                   \<lparr>cLocation = ''tp'', caveatId = ''b'', verificationId = [171, 5]\<rparr>],
        sig = [0, 255, 16]\<rparr>)
   = (\<lparr>location = ''loc'', id' = ''id'',
        caveats = [\<lparr>cLocation = [], caveatId = ''a'', verificationId = []\<rparr>,
                   \<lparr>cLocation = ''tp'', caveatId = ''b'', verificationId = [171, 5]\<rparr>],
        sig = [0, 255, 16]\<rparr>, None)
   \<and> Signature (MarshalDoc \<lparr>location = ''loc'', id' = ''id'', caveats = [], sig = [0, 255, 16]\<rparr>)
     = ''00ff10''"
  using marshal_unmarshal_roundtrip [of "\<lparr>location = ''x'', id' = ''y'', caveats = [], sig = [9]\<rparr>"
     "\<lparr>location = ''loc'', id' = ''id'',
        caveats = [\<lparr>cLocation = [], caveatId = ''a'', verificationId = []\<rparr>,
                   \<lparr>cLocation = ''tp'', caveatId = ''b'', verificationId = [171, 5]\<rparr>],
        sig = [0, 255, 16]\<rparr>"]
  by (simp add: MarshalDoc_def hextable_def)

text \<open>
  Claim C10. \<^verbatim>\<open>UnmarshalDoc\<close> is not atomic on error: for every document whose
  signature field is not valid hex it returns an error, and the receiver then holds the
  document's location and identifier, written before the failure, and still its own
  caveats: it is left partially updated.
\<close>

theorem UnmarshalDoc_not_atomic:
  assumes "\<not> validHex (Signature doc)"
  shows "snd (UnmarshalDoc m doc) \<noteq> None
         \<and> location (fst (UnmarshalDoc m doc)) = Location doc
         \<and> id' (fst (UnmarshalDoc m doc)) = Identifier doc
         \<and> caveats (fst (UnmarshalDoc m doc)) = caveats m"
proof -
  from assms have "snd (DecodeString (Signature doc)) \<noteq> None"
    by (simp add: DecodeString_None_iff)
  then obtain s e where "DecodeString (Signature doc) = (s, Some e)"
    by (cases "DecodeString (Signature doc)") auto
  then show ?thesis by (simp add: UnmarshalDoc_def)
qed

theorem UnmarshalDoc_not_atomic_witness:
  "\<not> validHex ''0g''
   \<and> UnmarshalDoc \<lparr>location = ''old'', id' = ''a'', caveats = [], sig = [1]\<rparr>
        \<lparr>Caveats = [\<lparr>cLocation = [], caveatId = ''c'', verificationId = []\<rparr>],
         Location = ''new'', Identifier = ''b'', Signature = ''0g''\<rparr>
     = (\<lparr>location = ''new'', id' = ''b'', caveats = [], sig = []\<rparr>,
        Some (CannotDecodeSignature [] (InvalidByteError CHR ''g'')))"
proof -
  have h: "\<not> validHex ''0g''" by (simp add: validHex_def isHexDigit_def)
  show ?thesis
    using h UnmarshalDoc_not_atomic [of
        "\<lparr>Caveats = [\<lparr>cLocation = [], caveatId = ''c'', verificationId = []\<rparr>],
         Location = ''new'', Identifier = ''b'', Signature = ''0g''\<rparr>"
        "\<lparr>location = ''old'', id' = ''a'', caveats = [], sig = [1]\<rparr>"]
    by (simp add: UnmarshalDoc_def fromHexChar_def)
qed

section \<open>Third-party caveat ids\<close>

lemmas utf8_eval = rune_len_def accept_lo_def accept_hi_def continuation_def
  DecodeRuneInString_def Let_def

lemma json_string_value_valid: "utf8_ValidString s \<Longrightarrow> json_string_value s = s"
  by (induction s rule: json_string_value.induct) (auto split: option.splits)

lemma AddThirdPartyCaveat_success:
  assumes "AddThirdPartyCaveat C S m secret caveat loc r = ((cid, None), m', r')"
  obtains nonce r1 data ct r2 where
    "newNonce C r = ((nonce, None), r1)"
    "json_Marshal S \<lparr>RootKey = nonce, Caveat = caveat\<rparr> = (data, None)"
    "encrypt C secret data r1 = ((ct, None), r2)"
    "cid = base64_EncodeToString S ct"
  using assms
  by (auto simp add: AddThirdPartyCaveat_def Let_def split: prod.splits option.splits)

text \<open>
  The cipher, the text encoding and the JSON codec are parameters. What is assumed of them
  is what the real ones do: decoding undoes the text encoding, decryption under the secret
  gives back what was encrypted under it, and deserialising the serialised payload gives
  the payload with its condition read back as \<open>json_string_value\<close> says. Then the caveat
  id of a successful addition decrypts to the nonce and to the condition as the JSON codec
  reads it back.
\<close>

lemma DecryptThirdPartyCaveatId_after_add:
  assumes add: "AddThirdPartyCaveat C S m secret caveat loc r = ((cid, None), m', r')"
    and b64: "\<forall>b. base64_DecodeString S (base64_EncodeToString S b) = (b, None)"
    and cipher: "\<forall>p rr c rr'. encrypt C secret p rr = ((c, None), rr') \<longrightarrow> decrypt C secret c = (p, None)"
    and json: "\<forall>d. json_Marshal S \<lparr>RootKey = fst (fst (newNonce C r)), Caveat = caveat\<rparr> = (d, None) \<longrightarrow>
                 json_Unmarshal S d =
                   (\<lparr>RootKey = fst (fst (newNonce C r)), Caveat = json_string_value caveat\<rparr>, None)"
  shows "DecryptThirdPartyCaveatId C S secret cid =
           (Some \<lparr>RootKey = fst (fst (newNonce C r)), Caveat = json_string_value caveat\<rparr>, None)"
proof -
  from add obtain nonce r1 data ct r2 where
    n: "newNonce C r = ((nonce, None), r1)"
    and j: "json_Marshal S \<lparr>RootKey = nonce, Caveat = caveat\<rparr> = (data, None)"
    and e: "encrypt C secret data r1 = ((ct, None), r2)"
    and c: "cid = base64_EncodeToString S ct"
    by (rule AddThirdPartyCaveat_success)
  from b64 c have 1: "base64_DecodeString S cid = (ct, None)" by simp
  from cipher e have 2: "decrypt C secret ct = (data, None)" by blast
  from json j n have 3: "json_Unmarshal S data =
      (\<lparr>RootKey = nonce, Caveat = json_string_value caveat\<rparr>, None)" by simp
  from 1 2 3 n show ?thesis by (simp add: DecryptThirdPartyCaveatId_def)
qed

lemma ex_json_b64: "\<forall>b. base64_DecodeString ex_json_codecs (base64_EncodeToString ex_json_codecs b) = (b, None)"
  by (simp add: ex_json_codecs_def ex_codecs_def DecodeString_EncodeToString)

lemma ex_cipher: "\<forall>p rr c rr'. encrypt ex_crypto secret p rr = ((c, None), rr') \<longrightarrow> decrypt ex_crypto secret c = (p, None)"
  by (auto simp add: ex_crypto_def ex_decrypt_def)

lemmas ex_json_eval = ex_json_codecs_def ex_json_Marshal_def ex_codecs_def ex_Marshal_def
  ex_crypto_def ex_decrypt_def AddThirdPartyCaveat_def DecryptThirdPartyCaveatId_def New_def
  addCaveat_def keyedHash_def keyedHasher_def Sum'_def Write_def bytes_of_string_def hextable_def
  fromHexChar_def utf8_eval char_of_def bit_Suc_0_iff

text \<open>
  Claim C8, as stated: for every secret, condition string and location,
  \<^verbatim>\<open>DecryptThirdPartyCaveatId\<close> with the secret on the caveat id returned by
  \<^verbatim>\<open>AddThirdPartyCaveat\<close> yields the original condition. It fails for the condition
  that is the single byte \<open>FF\<close>: the addition succeeds, and the id decrypts to the
  condition \<open>EF BF BD\<close>, since the payload goes through the JSON codec.
\<close>

theorem third_party_condition_counterexample:
  "fst (AddThirdPartyCaveat ex_crypto ex_json_codecs (New ex_crypto [7] ''id'' ''loc'') [5] [CHR 0xFF] ''tp'' 0)
     = (''050100efbfbd'', None)
   \<and> DecryptThirdPartyCaveatId ex_crypto ex_json_codecs [5] ''050100efbfbd''
     = (Some \<lparr>RootKey = [0], Caveat = [CHR 0xEF, CHR 0xBF, CHR 0xBD]\<rparr>, None)
   \<and> [CHR 0xEF, CHR 0xBF, CHR 0xBD] \<noteq> [CHR 0xFF]"
  by (simp add: ex_json_eval)

text \<open>
  Claim C8, amended. For every secret and location and every condition string that is
  valid UTF-8: when \<^verbatim>\<open>AddThirdPartyCaveat\<close> succeeds,
  \<^verbatim>\<open>DecryptThirdPartyCaveatId\<close> with the same secret succeeds on the caveat id it
  returned and yields the original condition and, as root key, the nonce drawn during the
  addition.
\<close>

theorem third_party_caveat_id_roundtrip:
  assumes "utf8_ValidString caveat"
    and "AddThirdPartyCaveat C S m secret caveat loc r = ((cid, None), m', r')"
    and "\<forall>b. base64_DecodeString S (base64_EncodeToString S b) = (b, None)"
    and "\<forall>p rr c rr'. encrypt C secret p rr = ((c, None), rr') \<longrightarrow> decrypt C secret c = (p, None)"
    and "\<forall>d. json_Marshal S \<lparr>RootKey = fst (fst (newNonce C r)), Caveat = caveat\<rparr> = (d, None) \<longrightarrow>
            json_Unmarshal S d =
              (\<lparr>RootKey = fst (fst (newNonce C r)), Caveat = json_string_value caveat\<rparr>, None)"
  shows "DecryptThirdPartyCaveatId C S secret cid =
           (Some \<lparr>RootKey = fst (fst (newNonce C r)), Caveat = caveat\<rparr>, None)"
  using DecryptThirdPartyCaveatId_after_add [OF assms(2-5)] json_string_value_valid [OF assms(1)]
  by simp

theorem third_party_caveat_id_roundtrip_witness:
  "fst (AddThirdPartyCaveat ex_crypto ex_json_codecs (New ex_crypto [7] ''id'' ''loc'') [5] [CHR ''o'', CHR 0xC3, CHR 0xA9] ''tp'' 0)
     = (''0501006fc3a9'', None)
   \<and> DecryptThirdPartyCaveatId ex_crypto ex_json_codecs [5] ''0501006fc3a9''
     = (Some \<lparr>RootKey = [0], Caveat = [CHR ''o'', CHR 0xC3, CHR 0xA9]\<rparr>, None)"
proof -
  let ?m = "New ex_crypto [7] ''id'' ''loc''"
  obtain m' where add: "AddThirdPartyCaveat ex_crypto ex_json_codecs ?m [5] [CHR ''o'', CHR 0xC3, CHR 0xA9] ''tp'' 0
      = ((''0501006fc3a9'', None), m', 1)"
    by (simp add: ex_json_eval)
  have v: "utf8_ValidString [CHR ''o'', CHR 0xC3, CHR 0xA9]" by (simp add: utf8_eval)
  have n: "fst (fst (newNonce ex_crypto 0)) = [0]" by (simp add: ex_crypto_def)
  have j: "\<forall>d. json_Marshal ex_json_codecs \<lparr>RootKey = fst (fst (newNonce ex_crypto 0)), Caveat = [CHR ''o'', CHR 0xC3, CHR 0xA9]\<rparr> = (d, None) \<longrightarrow>
            json_Unmarshal ex_json_codecs d =
              (\<lparr>RootKey = fst (fst (newNonce ex_crypto 0)), Caveat = json_string_value [CHR ''o'', CHR 0xC3, CHR 0xA9]\<rparr>, None)"
    by (simp add: ex_json_eval)
  show ?thesis
    using third_party_caveat_id_roundtrip [OF v add ex_json_b64 ex_cipher j] add n by simp
qed

section \<open>The discharger\<close>

text \<open>
  Claim C9. For every caveat id: if the decoder fails on it, \<^verbatim>\<open>Discharge\<close> returns a
  decode error and no macaroon, having called nothing but the decoder; if decoding
  succeeds and the checker returns an error for the decoded condition, \<^verbatim>\<open>Discharge\<close>
  returns that error and no macaroon without calling the factory; only when both succeed
  is the factory called, with the caveat id as identifier, the decoded root key as key
  and the checker's caveats, and what it returns is the result.
\<close>

theorem Discharge_outcomes:
  "(Decoder d ident w = ((rootKey, condition, Some err), w1) \<longrightarrow>
      Discharge d ident w =
        ((None, Some (DischargerCannotDecode err)), [DecodeCaveatId ident], w1))
   \<and> (Decoder d ident w = ((rootKey, condition, None), w1) \<and>
      Checker d condition w1 = ((cavs, Some err), w2) \<longrightarrow>
      Discharge d ident w =
        ((None, Some err), [DecodeCaveatId ident, CheckThirdPartyCaveat condition], w2))
   \<and> (Decoder d ident w = ((rootKey, condition, None), w1) \<and>
      Checker d condition w1 = ((cavs, None), w2) \<and>
      Factory d ident rootKey cavs w2 = (res, w3) \<longrightarrow>
      Discharge d ident w =
        (res, [DecodeCaveatId ident, CheckThirdPartyCaveat condition,
               NewMacaroon ident rootKey cavs], w3))"
  by (simp add: Discharge_def)

theorem Discharge_outcomes_witness:
  "Discharge ex_Discharger [] 0 =
     ((None, Some (DischargerCannotDecode (External ''empty caveat id''))), [DecodeCaveatId []], 0)
   \<and> Discharge ex_Discharger ''is-member'' 0 =
     ((None, Some (External ''not a member'')),
      [DecodeCaveatId ''is-member'', CheckThirdPartyCaveat ''is-member''], 0)
   \<and> Discharge ex_Discharger ''ok'' 0 =
     ((Some \<lparr>location = [], id' = ''ok'', caveats = [\<lparr>cLocation = [], caveatId = ''ok'', verificationId = []\<rparr>],
             sig = [1, 1, 7, 111, 107, 111, 107]\<rparr>, None),
      [DecodeCaveatId ''ok'', CheckThirdPartyCaveat ''ok'', NewMacaroon ''ok'' [7] [''ok'']], 1)"
  using Discharge_outcomes [of ex_Discharger "[]" 0 "[]" "[]" "External ''empty caveat id''" 0]
        Discharge_outcomes [of ex_Discharger "''is-member''" 0 "[7]" "''is-member''" "External ''not a member''" 0 "[]" 0]
        Discharge_outcomes [of ex_Discharger "''ok''" 0 "[7]" "''ok''" _ 0 "[''ok'']" 0
           "(Some \<lparr>location = [], id' = ''ok'', caveats = [\<lparr>cLocation = [], caveatId = ''ok'', verificationId = []\<rparr>],
             sig = [1, 1, 7, 111, 107, 111, 107]\<rparr>, None)" 1]
  by (simp add: ex_Discharger_def New_def AddFirstPartyCaveat_def addCaveat_def keyedHash_def
        keyedHasher_def Sum'_def Write_def ex_crypto_def bytes_of_string_def)

section \<open>Verification\<close>

lemma verify_caveats_Cons:
  "verify_caveats fuel C rootSig check ds i (cav # rest) caveatSig =
     (case check_caveat fuel C rootSig check ds i cav caveatSig of
        None \<Rightarrow> None
      | Some (Some r) \<Rightarrow> Some (Inl r)
      | Some None \<Rightarrow>
          verify_caveats fuel C rootSig check ds (Suc i) rest (chain_step C caveatSig cav))"
  unfolding verify_caveats.simps(2) check_caveat_def [symmetric] Let_def chain_step_hasher
  by (rule refl)

lemma verify_caveats_append:
  "verify_caveats fuel C rootSig check ds i (pre @ post) s =
     (case verify_caveats fuel C rootSig check ds i pre s of
        None \<Rightarrow> None
      | Some (Inl r) \<Rightarrow> Some (Inl r)
      | Some (Inr s') \<Rightarrow> verify_caveats fuel C rootSig check ds (i + length pre) post s')"
proof (induction pre arbitrary: i s)
  case Nil
  show ?case by simp
next
  case (Cons cav pre)
  show ?case
    by (simp add: verify_caveats_Cons Cons.IH split: option.splits sum.splits)
qed

lemma verify_eq:
  "verify fuel C m rootSig rootKey check ds =
     (case verify_caveats fuel C (if rootSig = [] then sig m else rootSig) check ds 0 (caveats m)
             (keyedHash C rootKey (id' m)) of
        None \<Rightarrow> None
      | Some (Inl r) \<Rightarrow> Some r
      | Some (Inr caveatSig) \<Rightarrow>
          if bindForRequest C (if rootSig = [] then sig m else rootSig) caveatSig = sig m
          then Some (True, None) else Some (False, Some SignatureMismatch))"
  by (simp add: verify.simps hmac_Equal_def Let_def split: option.splits sum.splits)

lemma check_caveat_first_party:
  "\<not> IsThirdParty cav \<Longrightarrow>
     check_caveat fuel C rootSig check ds i cav s =
       (if fst (check (caveatId cav)) then Some None
        else Some (Some (False, snd (check (caveatId cav)))))"
  by (simp add: check_caveat_def split: prod.splits)

lemma verify_caveats_first_party:
  assumes "\<forall>cav \<in> set cavs. \<not> IsThirdParty cav \<and> fst (check (caveatId cav))"
  shows "verify_caveats fuel C rootSig check ds i cavs s = Some (Inr (signature_chain C s cavs))"
  using assms
proof (induction cavs arbitrary: i s)
  case Nil
  show ?case by (simp add: signature_chain_def)
next
  case (Cons cav cavs)
  then show ?case
    by (simp add: verify_caveats_Cons check_caveat_first_party signature_chain_def)
qed

lemma check_caveat_no_discharge:
  assumes "IsThirdParty cav" "decrypt C s (verificationId cav) = (cavKey, None)"
    and "ds (caveatId cav) = None"
  shows "check_caveat fuel C rs check ds i cav s = Some (Some (False, Some (CannotFindDischarge i)))"
  using assms by (simp add: check_caveat_def)

lemma verify_mismatch:
  assumes "verify_caveats fuel C (if rootSig = [] then sig m else rootSig) check ds 0 (caveats m)
             (keyedHash C rootKey (id' m)) = Some (Inr caveatSig)"
    and "bindForRequest C (if rootSig = [] then sig m else rootSig) caveatSig \<noteq> sig m"
  shows "verify fuel C m rootSig rootKey check ds = Some (False, Some SignatureMismatch)"
  using assms by (simp add: verify_eq)

lemma verify_stops_at:
  assumes "caveats m = pre @ cav # post"
    and "verify_caveats fuel C (if rootSig = [] then sig m else rootSig) check ds 0 pre
           (keyedHash C rootKey (id' m)) = Some (Inr s)"
    and "check_caveat fuel C (if rootSig = [] then sig m else rootSig) check ds (length pre) cav s
           = Some (Some r)"
  shows "verify fuel C m rootSig rootKey check ds = Some r"
  using assms by (simp add: verify_eq verify_caveats_append verify_caveats_Cons)

lemma verify_bound_discharge:
  assumes "\<forall>c \<in> set conds. fst (check c)" and "rs \<noteq> []"
  shows "verify fuel C (Bind C (foldl (AddFirstPartyCaveat C) (New C key ident loc) conds) rs)
           rs key check ds = Some (True, None)"
proof -
  let ?d = "foldl (AddFirstPartyCaveat C) (New C key ident loc) conds"
  have cavs: "caveats (Bind C ?d rs) = map first_party conds"
    and sg: "sig ?d = signature_chain C (keyedHash C key ident) (map first_party conds)"
    and idm: "id' (Bind C ?d rs) = ident"
    and bsg: "sig (Bind C ?d rs) = bindForRequest C rs (sig ?d)"
    by (simp_all add: foldl_AddFirstPartyCaveat New_def Bind_def)
  have "\<forall>cav \<in> set (map first_party conds). \<not> IsThirdParty cav \<and> fst (check (caveatId cav))"
    using assms(1) by (simp add: first_party_def IsThirdParty_def)
  then have loop: "verify_caveats fuel C rs check ds 0 (caveats (Bind C ?d rs)) (keyedHash C key ident)
      = Some (Inr (sig ?d))"
    unfolding cavs sg by (rule verify_caveats_first_party)
  show ?thesis
    unfolding verify_eq idm using assms(2) by (simp add: loop bsg)
qed

lemma check_caveat_discharged:
  assumes "IsThirdParty cav" "decrypt C s (verificationId cav) = (cavKey, None)"
    and "ds (caveatId cav) =
           Some (Bind C (foldl (AddFirstPartyCaveat C) (New C cavKey ident loc) conds) rs)"
    and "\<forall>c \<in> set conds. fst (check c)" and "rs \<noteq> []"
  shows "check_caveat (Suc fuel) C rs check ds i cav s = Some None"
  using assms(1-3) by (simp add: check_caveat_def verify_bound_discharge [OF assms(4,5)])

subsection \<open>The depth bound\<close>

text \<open>
  A result does not depend on the bound: once a depth gives a result, every greater depth
  gives the same. And a bound is needed: on \<open>ex_cyclic\<close>, whose discharge is itself, no
  depth gives a result, as the recursion of \<^verbatim>\<open>verify\<close> does not end there.
\<close>

lemma check_caveat_mono:
  assumes "\<And>dm key r. verify n C dm rs key check ds = Some r
             \<Longrightarrow> verify (Suc n) C dm rs key check ds = Some r"
    and "check_caveat (Suc n) C rs check ds i cav s = Some y"
  shows "check_caveat (Suc (Suc n)) C rs check ds i cav s = Some y"
proof (cases "IsThirdParty cav")
  case False
  with assms(2) show ?thesis by (simp add: check_caveat_def)
next
  case True
  obtain key err where d: "decrypt C s (verificationId cav) = (key, err)"
    by (cases "decrypt C s (verificationId cav)")
  show ?thesis
  proof (cases "err = None \<and> ds (caveatId cav) \<noteq> None")
    case False
    with assms(2) True d show ?thesis
      by (auto simp add: check_caveat_def split: option.splits)
  next
    case hit: True
    then obtain dm where dm: "ds (caveatId cav) = Some dm" and e: "err = None" by auto
    from assms(2) True d dm e obtain r where r: "verify n C dm rs key check ds = Some r"
      by (auto simp add: check_caveat_def split: option.splits)
    from assms(1) [OF r] assms(2) True d dm e r show ?thesis
      by (simp add: check_caveat_def)
  qed
qed

lemma check_caveat_mono0:
  assumes "check_caveat 0 C rs check ds i cav s = Some y"
  shows "check_caveat (Suc 0) C rs check ds i cav s = Some y"
  using assms
  by (auto simp add: check_caveat_def split: if_splits prod.splits option.splits)

lemma verify_caveats_mono:
  assumes "\<And>i cav s y. check_caveat n C rs check ds i cav s = Some y
             \<Longrightarrow> check_caveat (Suc n) C rs check ds i cav s = Some y"
    and "verify_caveats n C rs check ds i cavs s = Some x"
  shows "verify_caveats (Suc n) C rs check ds i cavs s = Some x"
  using assms(2)
proof (induction cavs arbitrary: i s)
  case Nil
  then show ?case by simp
next
  case (Cons cav cavs)
  from Cons.prems obtain y where y: "check_caveat n C rs check ds i cav s = Some y"
    by (auto simp add: verify_caveats_Cons split: option.splits)
  from assms(1) [OF y] Cons.prems y Cons.IH show ?case
    by (auto simp add: verify_caveats_Cons split: option.splits)
qed

lemma verify_mono_step:
  assumes "\<And>rs i cavs s x. verify_caveats n C rs check ds i cavs s = Some x
             \<Longrightarrow> verify_caveats (Suc n) C rs check ds i cavs s = Some x"
    and "verify n C m rootSig rootKey check ds = Some r"
  shows "verify (Suc n) C m rootSig rootKey check ds = Some r"
  using assms(2)
  by (auto simp add: verify_eq dest!: assms(1) split: option.splits sum.splits if_splits)

lemma verify_Suc:
  "verify n C m rootSig rootKey check ds = Some r
     \<Longrightarrow> verify (Suc n) C m rootSig rootKey check ds = Some r"
proof (induction n arbitrary: m rootSig rootKey r)
  case 0
  have "verify_caveats 0 C rs check ds i cavs s = Some x
      \<Longrightarrow> verify_caveats (Suc 0) C rs check ds i cavs s = Some x" for rs i cavs s x
    by (rule verify_caveats_mono) (auto intro: check_caveat_mono0)
  then show ?case using "0.prems" by (rule verify_mono_step)
next
  case (Suc n)
  have "verify_caveats (Suc n) C rs check ds i cavs s = Some x
      \<Longrightarrow> verify_caveats (Suc (Suc n)) C rs check ds i cavs s = Some x" for rs i cavs s x
    by (rule verify_caveats_mono) (auto intro: check_caveat_mono Suc.IH)
  then show ?case using Suc.prems by (rule verify_mono_step)
qed

lemma verify_fuel_mono:
  assumes "verify n C m rootSig rootKey check ds = Some r" and "n \<le> n'"
  shows "verify n' C m rootSig rootKey check ds = Some r"
proof -
  have "verify (n + k) C m rootSig rootKey check ds = Some r" for k
    by (induction k) (simp_all add: assms(1) verify_Suc)
  from this [of "n' - n"] assms(2) show ?thesis by simp
qed

lemma verify_cyclic_None:
  "verify n ex_crypto ex_cyclic rootSig [7] check ex_cyclic_discharges = None"
proof -
  let ?cav = "\<lparr>cLocation = [], caveatId = ''c'', verificationId = [1, 7, 120, 7]\<rparr>"
  have c: "caveats ex_cyclic = [?cav]" and i: "id' ex_cyclic = ''x''"
    by (simp_all add: ex_cyclic_def)
  have k: "keyedHash ex_crypto [7] ''x'' = [1, 7, 120]"
    by (simp add: keyedHash_eq ex_crypto_def bytes_of_string_def)
  have d: "decrypt ex_crypto [1, 7, 120] (verificationId ?cav) = ([7], None)"
    by (simp add: ex_crypto_def ex_decrypt_def)
  have l: "ex_cyclic_discharges (caveatId ?cav) = Some ex_cyclic"
    by (simp add: ex_cyclic_discharges_def)
  have t: "IsThirdParty ?cav" by (simp add: IsThirdParty_def)
  show ?thesis
  proof (induction n arbitrary: rootSig)
    case 0
    have "check_caveat 0 ex_crypto rs check ex_cyclic_discharges 0 ?cav [1, 7, 120] = None" for rs
      unfolding check_caveat_def by (simp only: t d l if_True prod.case option.case nat.case)
    then show ?case
      by (simp add: verify_eq c i k verify_caveats_Cons)
  next
    case (Suc n)
    have "check_caveat (Suc n) ex_crypto rs check ex_cyclic_discharges 0 ?cav [1, 7, 120] = None" for rs
      unfolding check_caveat_def
      by (simp only: t d l if_True prod.case option.case nat.case Suc.IH)
    then show ?case
      by (simp add: verify_eq c i k verify_caveats_Cons)
  qed
qed

subsection \<open>Minting, then verifying\<close>

text \<open>
  Claim C3. For every root key, identifier and location and every sequence of first-party
  caveats added to the new macaroon, \<^verbatim>\<open>Verify\<close> with the same root key, a checker that
  reports every one of those conditions as satisfied and an empty discharge map returns
  \<^verbatim>\<open>(true, nil)\<close>, at any depth bound.
\<close>

theorem Verify_first_party_roundtrip:
  assumes "\<forall>c \<in> set conds. fst (check c)"
  shows "Verify fuel C (foldl (AddFirstPartyCaveat C) (New C rootKey ident loc) conds)
           rootKey check Map.empty = Some (True, None)"
proof -
  let ?m = "foldl (AddFirstPartyCaveat C) (New C rootKey ident loc) conds"
  have cavs: "caveats ?m = map first_party conds"
    and sg: "sig ?m = signature_chain C (keyedHash C rootKey ident) (map first_party conds)"
    and idm: "id' ?m = ident"
    by (simp_all add: foldl_AddFirstPartyCaveat New_def)
  have "\<forall>cav \<in> set (map first_party conds). \<not> IsThirdParty cav \<and> fst (check (caveatId cav))"
    using assms by (simp add: first_party_def IsThirdParty_def)
  then have loop: "verify_caveats fuel C (sig ?m) check Map.empty 0 (caveats ?m) (keyedHash C rootKey ident)
      = Some (Inr (sig ?m))"
    unfolding cavs sg by (rule verify_caveats_first_party)
  show ?thesis
    unfolding Verify_def verify_eq idm
    by (simp add: loop bindForRequest_def bytes_Equal_def)
qed

theorem Verify_first_party_roundtrip_witness:
  "Verify 0 ex_crypto
     (foldl (AddFirstPartyCaveat ex_crypto) (New ex_crypto [7] ''id'' ''loc'') [''a'', ''b''])
     [7] ex_check ex_no_discharges = Some (True, None)"
proof -
  have h: "\<forall>c \<in> set [''a'', ''b'']. fst (ex_check c)"
    by (simp add: ex_check_def)
  show ?thesis
    unfolding ex_no_discharges_def by (rule Verify_first_party_roundtrip [OF h])
qed

subsection \<open>The final comparison\<close>

text \<open>
  Claim C2. For every macaroon, root key, checker and discharge map: if the loop of
  \<^verbatim>\<open>Verify\<close> gets through all caveats without an early return, and
  \<^verbatim>\<open>bindForRequest\<close> of the root signature and the recomputed signature differs from
  the macaroon's stored signature, then \<^verbatim>\<open>Verify\<close> returns \<^verbatim>\<open>false\<close> with the
  signature-mismatch error: satisfied caveats do not authorise a macaroon whose signature
  does not match.
\<close>

theorem Verify_signature_mismatch:
  assumes "verify_caveats fuel C (sig m) check ds 0 (caveats m) (keyedHash C rootKey (id' m))
             = Some (Inr caveatSig)"
    and "bindForRequest C (sig m) caveatSig \<noteq> sig m"
  shows "Verify fuel C m rootKey check ds = Some (False, Some SignatureMismatch)"
  unfolding Verify_def using assms by (intro verify_mismatch) simp_all

theorem Verify_signature_mismatch_witness:
  "verify_caveats 0 ex_crypto [9] ex_check ex_no_discharges 0
      [\<lparr>cLocation = [], caveatId = ''a'', verificationId = []\<rparr>] (keyedHash ex_crypto [7] ''id'')
     = Some (Inr [1, 1, 7, 105, 100, 97])
   \<and> bindForRequest ex_crypto [9] [1, 1, 7, 105, 100, 97] \<noteq> [9]
   \<and> Verify 0 ex_crypto
        \<lparr>location = ''loc'', id' = ''id'',
         caveats = [\<lparr>cLocation = [], caveatId = ''a'', verificationId = []\<rparr>], sig = [9]\<rparr>
        [7] ex_check ex_no_discharges = Some (False, Some SignatureMismatch)"
proof -
  let ?m = "\<lparr>location = ''loc'', id' = ''id'',
         caveats = [\<lparr>cLocation = [], caveatId = ''a'', verificationId = []\<rparr>], sig = [9]\<rparr>"
  have h1: "verify_caveats 0 ex_crypto (sig ?m) ex_check ex_no_discharges 0 (caveats ?m)
      (keyedHash ex_crypto [7] (id' ?m)) = Some (Inr [1, 1, 7, 105, 100, 97])"
    by (simp add: ex_eval)
  have h2: "bindForRequest ex_crypto (sig ?m) [1, 1, 7, 105, 100, 97] \<noteq> sig ?m"
    by (simp add: ex_eval)
  show ?thesis
    using Verify_signature_mismatch [OF h1 h2] h1 h2 by simp
qed

subsection \<open>First-party caveats\<close>

text \<open>
  Claim C4, as stated: whenever the checker returns an error for a first-party caveat's
  condition, \<^verbatim>\<open>Verify\<close> returns that error, whatever boolean comes with it. It fails
  when the checker returns \<^verbatim>\<open>true\<close> together with an error: the loop looks at the
  error only when the boolean is \<^verbatim>\<open>false\<close>.
\<close>

theorem Verify_check_error_counterexample:
  "ex_erring_check ''c'' = (True, Some (External ''cannot check''))
   \<and> Verify 0 ex_crypto (AddFirstPartyCaveat ex_crypto (New ex_crypto [7] ''id'' ''loc'') ''c'')
        [7] ex_erring_check ex_no_discharges = Some (True, None)"
  by (simp add: ex_eval)

text \<open>
  Claim C4, amended. When verification reaches a first-party caveat and the checker
  returns \<^verbatim>\<open>false\<close> for its condition, \<^verbatim>\<open>Verify\<close> returns \<^verbatim>\<open>false\<close> with
  exactly the error value the checker returned: its error if it gave one, \<^verbatim>\<open>nil\<close> for
  a plain refusal. When the checker returns \<^verbatim>\<open>true\<close>, the loop goes on to the next
  caveat with the caveat folded into the running signature, whatever error value came
  with the \<^verbatim>\<open>true\<close>.
\<close>

theorem Verify_first_party_refused:
  "(caveats m = pre @ cav # post \<and>
    verify_caveats fuel C (sig m) check ds 0 pre (keyedHash C rootKey (id' m)) = Some (Inr s) \<and>
    \<not> IsThirdParty cav \<and> check (caveatId cav) = (False, err)
    \<longrightarrow> Verify fuel C m rootKey check ds = Some (False, err))
   \<and> (\<not> IsThirdParty cav \<and> check (caveatId cav) = (True, err)
    \<longrightarrow> verify_caveats fuel C rs check ds i (cav # rest) s' =
        verify_caveats fuel C rs check ds (Suc i) rest (chain_step C s' cav))"
proof (intro conjI impI)
  assume a: "caveats m = pre @ cav # post \<and>
    verify_caveats fuel C (sig m) check ds 0 pre (keyedHash C rootKey (id' m)) = Some (Inr s) \<and>
    \<not> IsThirdParty cav \<and> check (caveatId cav) = (False, err)"
  then have "check_caveat fuel C (sig m) check ds (length pre) cav s = Some (Some (False, err))"
    by (simp add: check_caveat_first_party)
  with a show "Verify fuel C m rootKey check ds = Some (False, err)"
    unfolding Verify_def by (intro verify_stops_at [where pre = pre and cav = cav and s = s]) simp_all
next
  assume "\<not> IsThirdParty cav \<and> check (caveatId cav) = (True, err)"
  then show "verify_caveats fuel C rs check ds i (cav # rest) s' =
        verify_caveats fuel C rs check ds (Suc i) rest (chain_step C s' cav)"
    by (simp add: verify_caveats_Cons check_caveat_first_party)
qed

theorem Verify_first_party_refused_witness:
  "Verify 0 ex_crypto (AddFirstPartyCaveat ex_crypto (New ex_crypto [7] ''id'' ''loc'') ''c'')
        [7] ex_refusing_check ex_no_discharges = Some (False, Some (External ''cannot check''))
   \<and> verify_caveats 0 ex_crypto [9] ex_erring_check ex_no_discharges 0
        [\<lparr>cLocation = [], caveatId = ''c'', verificationId = []\<rparr>] [3]
      = Some (Inr [1, 3, 99])"
  using Verify_first_party_refused [where
      m = "AddFirstPartyCaveat ex_crypto (New ex_crypto [7] ''id'' ''loc'') ''c''" and pre = "[]"
      and cav = "\<lparr>cLocation = [], caveatId = ''c'', verificationId = []\<rparr>" and post = "[]"
      and fuel = 0 and C = ex_crypto and check = ex_refusing_check and ds = ex_no_discharges
      and rootKey = "[7]" and s = "[1, 7, 105, 100]" and err = "Some (External ''cannot check'')"]
    Verify_first_party_refused [where
      cav = "\<lparr>cLocation = [], caveatId = ''c'', verificationId = []\<rparr>"
      and C = ex_crypto and check = ex_erring_check and ds = ex_no_discharges
      and err = "Some (External ''cannot check'')"
      and fuel = 0 and rs = "[9]" and i = 0 and rest = "[]" and s' = "[3]"]
  by (simp add: ex_eval)

subsection \<open>Third-party caveats\<close>

text \<open>
  Claim C5. For every macaroon with a third-party caveat that verification reaches and
  whose verification id decrypts under the running signature: if the discharge map has no
  entry for the caveat id, \<^verbatim>\<open>Verify\<close> returns \<^verbatim>\<open>false\<close> with the
  discharge-not-found error for that caveat's index; if the map holds a discharge macaroon
  minted with the recovered key, carrying first-party caveats that the checker accepts,
  and bound to the root macaroon's signature (which is not empty), the loop gets past the
  caveat with the caveat folded into the running signature.
\<close>

theorem Verify_third_party_discharge:
  "(caveats m = pre @ cav # post \<and>
    verify_caveats fuel C (sig m) check ds 0 pre (keyedHash C rootKey (id' m)) = Some (Inr s) \<and>
    IsThirdParty cav \<and> decrypt C s (verificationId cav) = (cavKey, None) \<and>
    ds (caveatId cav) = None
    \<longrightarrow> Verify fuel C m rootKey check ds = Some (False, Some (CannotFindDischarge (length pre))))
   \<and> (verify_caveats (Suc fuel) C (sig m) check ds 0 pre (keyedHash C rootKey (id' m)) = Some (Inr s) \<and>
    IsThirdParty cav \<and> decrypt C s (verificationId cav) = (cavKey, None) \<and>
    ds (caveatId cav) =
      Some (Bind C (foldl (AddFirstPartyCaveat C) (New C cavKey ident loc) conds) (sig m)) \<and>
    (\<forall>c \<in> set conds. fst (check c)) \<and> sig m \<noteq> []
    \<longrightarrow> verify_caveats (Suc fuel) C (sig m) check ds 0 (pre @ [cav]) (keyedHash C rootKey (id' m))
          = Some (Inr (chain_step C s cav)))"
proof (intro conjI impI)
  assume a: "caveats m = pre @ cav # post \<and>
    verify_caveats fuel C (sig m) check ds 0 pre (keyedHash C rootKey (id' m)) = Some (Inr s) \<and>
    IsThirdParty cav \<and> decrypt C s (verificationId cav) = (cavKey, None) \<and>
    ds (caveatId cav) = None"
  then have "check_caveat fuel C (sig m) check ds (length pre) cav s
      = Some (Some (False, Some (CannotFindDischarge (length pre))))"
    by (intro check_caveat_no_discharge [where cavKey = cavKey]) simp_all
  with a show "Verify fuel C m rootKey check ds = Some (False, Some (CannotFindDischarge (length pre)))"
    unfolding Verify_def by (intro verify_stops_at [where pre = pre and cav = cav and s = s]) simp_all
next
  assume b: "verify_caveats (Suc fuel) C (sig m) check ds 0 pre (keyedHash C rootKey (id' m)) = Some (Inr s) \<and>
    IsThirdParty cav \<and> decrypt C s (verificationId cav) = (cavKey, None) \<and>
    ds (caveatId cav) =
      Some (Bind C (foldl (AddFirstPartyCaveat C) (New C cavKey ident loc) conds) (sig m)) \<and>
    (\<forall>c \<in> set conds. fst (check c)) \<and> sig m \<noteq> []"
  then have "check_caveat (Suc fuel) C (sig m) check ds (length pre) cav s = Some None"
    by (intro check_caveat_discharged [where cavKey = cavKey and ident = ident and loc = loc
          and conds = conds]) simp_all
  with b show "verify_caveats (Suc fuel) C (sig m) check ds 0 (pre @ [cav]) (keyedHash C rootKey (id' m))
          = Some (Inr (chain_step C s cav))"
    by (simp add: verify_caveats_append verify_caveats_Cons)
qed

theorem Verify_third_party_discharge_witness:
  "Verify 0 ex_crypto ex_root [7] ex_check ex_no_discharges
     = Some (False, Some (CannotFindDischarge 0))
   \<and> verify_caveats (Suc 0) ex_crypto (sig ex_root) ex_check ex_discharges 0 (caveats ex_root)
       (keyedHash ex_crypto [7] ''id'')
     = Some (Inr (sig ex_root))
   \<and> Verify (Suc 0) ex_crypto ex_root [7] ex_check ex_discharges = Some (True, None)"
proof -
  let ?cav = "\<lparr>cLocation = ''tp'', caveatId = ''0501006f6b'', verificationId = [1, 7, 105, 100, 0]\<rparr>"
  have c: "caveats ex_root = [] @ ?cav # []" and i: "id' ex_root = ''id''"
    by (simp_all add: ex_root_eq)
  have t: "IsThirdParty ?cav" by (simp add: IsThirdParty_def)
  have d: "decrypt ex_crypto (keyedHash ex_crypto [7] ''id'') (verificationId ?cav) = ([0], None)"
    by (simp add: ex_eval)
  have n: "ex_no_discharges (caveatId ?cav) = None"
    by (simp add: ex_no_discharges_def)
  have p: "ex_discharges (caveatId ?cav) =
      Some (Bind ex_crypto (foldl (AddFirstPartyCaveat ex_crypto)
              (New ex_crypto [0] ''0501006f6b'' ''tp'') []) (sig ex_root))"
    by (simp add: ex_discharges_def ex_discharge_def)
  have s: "sig ex_root \<noteq> []" by (simp add: ex_root_eq)
  have e: "chain_step ex_crypto (keyedHash ex_crypto [7] ''id'') ?cav = sig ex_root"
    by (simp add: ex_root_eq ex_eval)
  have A: "Verify 0 ex_crypto ex_root [7] ex_check ex_no_discharges
     = Some (False, Some (CannotFindDischarge 0))"
    using Verify_third_party_discharge [where m = ex_root and pre = "[]" and cav = ?cav
        and post = "[]" and fuel = 0 and C = ex_crypto and check = ex_check
        and ds = ex_no_discharges and rootKey = "[7]" and s = "keyedHash ex_crypto [7] ''id''"
        and cavKey = "[0]"] c i t d n
    by simp
  have B: "verify_caveats (Suc 0) ex_crypto (sig ex_root) ex_check ex_discharges 0 (caveats ex_root)
       (keyedHash ex_crypto [7] ''id'') = Some (Inr (sig ex_root))"
    using Verify_third_party_discharge [where m = ex_root and pre = "[]" and cav = ?cav
        and fuel = 0 and C = ex_crypto and check = ex_check
        and ds = ex_discharges and rootKey = "[7]" and s = "keyedHash ex_crypto [7] ''id''"
        and cavKey = "[0]" and ident = "''0501006f6b''" and loc = "''tp''" and conds = "[]"]
      c i t d p s e
    by simp
  have "Verify (Suc 0) ex_crypto ex_root [7] ex_check ex_discharges = Some (True, None)"
    by (simp add: Verify_def verify_eq i B bindForRequest_def bytes_Equal_def)
  with A B show ?thesis by simp
qed

end
